theory Spec2Isabelle
  imports Main "HOL-Library.Sublist"
begin

section \<open>Text primitives of the host language\<close>

text \<open>
  The service is Python; its \<^verbatim>\<open>str\<close> values are modelled as \<^typ>\<open>string\<close>, one
  \<^typ>\<open>char\<close> per code point, for code points below 256.  The ten pictographs that the
  prompt template of \<^verbatim>\<open>analyze_repo_with_chat\<close> prints in front of its bucket labels lie
  outside that range; each of their code points is written as the one character
  \<open>pict\<close>, which like them is neither whitespace, nor a word character, nor a bracket.
  Console output (\<^verbatim>\<open>print\<close>) is not modelled.
\<close>

abbreviation NL :: char where "NL \<equiv> CHR 0x0A"

abbreviation pict :: char where "pict \<equiv> CHR 0x80"

definition is_space :: "char \<Rightarrow> bool" where
  \<comment> \<open>\<^verbatim>\<open>str.isspace\<close> and the regular-expression class \<^verbatim>\<open>\s\<close>\<close>
  "is_space c = (let n = (of_char c :: nat) in
     (9 \<le> n \<and> n \<le> 13) \<or> (28 \<le> n \<and> n \<le> 32) \<or> n = 133 \<or> n = 160)"

definition is_word :: "char \<Rightarrow> bool" where
  \<comment> \<open>the regular-expression class \<^verbatim>\<open>\w\<close>: alphanumeric or underscore\<close>
  "is_word c = (let n = (of_char c :: nat) in
     (48 \<le> n \<and> n \<le> 57) \<or> (65 \<le> n \<and> n \<le> 90) \<or> n = 95 \<or> (97 \<le> n \<and> n \<le> 122) \<or>
     n = 170 \<or> n = 178 \<or> n = 179 \<or> n = 181 \<or> n = 185 \<or> n = 186 \<or>
     (188 \<le> n \<and> n \<le> 190) \<or> (192 \<le> n \<and> n \<noteq> 215 \<and> n \<noteq> 247))"

definition lower_char :: "char \<Rightarrow> char" where
  "lower_char c = (let n = (of_char c :: nat) in
     if (65 \<le> n \<and> n \<le> 90) \<or> (192 \<le> n \<and> n \<le> 222 \<and> n \<noteq> 215)
     then char_of (n + 32) else c)"

definition lower :: "string \<Rightarrow> string" where
  \<comment> \<open>\<^verbatim>\<open>s.lower()\<close>\<close>
  "lower s = map lower_char s"

definition lstrip :: "string \<Rightarrow> string" where
  "lstrip s = dropWhile is_space s"

definition rstrip :: "string \<Rightarrow> string" where
  "rstrip s = rev (dropWhile is_space (rev s))"

definition strip :: "string \<Rightarrow> string" where
  \<comment> \<open>\<^verbatim>\<open>s.strip()\<close>\<close>
  "strip s = rstrip (lstrip s)"

definition startswith :: "string \<Rightarrow> string \<Rightarrow> bool" where
  \<comment> \<open>\<^verbatim>\<open>s.startswith(p)\<close>\<close>
  "startswith s p = prefix p s"

fun contains :: "string \<Rightarrow> string \<Rightarrow> bool" where
  \<comment> \<open>\<^verbatim>\<open>sub in s\<close>, written \<open>contains sub s\<close>\<close>
  "contains sub [] = (sub = [])"
| "contains sub (c # cs) = (prefix sub (c # cs) \<or> contains sub cs)"

fun find_index :: "string \<Rightarrow> string \<Rightarrow> nat option" where
  \<comment> \<open>\<^verbatim>\<open>s.index(sub)\<close>: the position of the first occurrence, \<open>None\<close> where Python raises\<close>
  "find_index sub [] = (if sub = [] then Some 0 else None)"
| "find_index sub (c # cs) =
     (if prefix sub (c # cs) then Some 0 else map_option Suc (find_index sub cs))"

definition slice :: "nat \<Rightarrow> nat \<Rightarrow> string \<Rightarrow> string" where
  \<comment> \<open>\<^verbatim>\<open>s[i:j]\<close> for non-negative bounds; empty when \<open>j \<le> i\<close>\<close>
  "slice i j s = drop i (take j s)"

definition split_first :: "string \<Rightarrow> string \<Rightarrow> string" where
  \<comment> \<open>\<^verbatim>\<open>s.split(sep)[0]\<close>: the text before the first separator, or all of it\<close>
  "split_first sep s = (case find_index sep s of None \<Rightarrow> s | Some i \<Rightarrow> take i s)"

fun split_nl :: "string \<Rightarrow> string list" where
  \<comment> \<open>\<^verbatim>\<open>s.split('\n')\<close>\<close>
  "split_nl [] = [[]]"
| "split_nl (c # cs) =
     (if c = NL then [] # split_nl cs
      else (let r = split_nl cs in (c # hd r) # tl r))"

fun join :: "string \<Rightarrow> string list \<Rightarrow> string" where
  \<comment> \<open>\<^verbatim>\<open>sep.join(parts)\<close>\<close>
  "join sep [] = []"
| "join sep [p] = p"
| "join sep (p # q # ps) = p @ sep @ join sep (q # ps)"

function replace_all :: "string \<Rightarrow> string \<Rightarrow> string \<Rightarrow> string" where
  \<comment> \<open>\<^verbatim>\<open>s.replace(old, new)\<close> for a non-empty \<open>old\<close>: leftmost occurrences, not overlapping\<close>
  "replace_all old new [] = []"
| "replace_all old new (c # cs) =
     (if old \<noteq> [] \<and> prefix old (c # cs)
      then new @ replace_all old new (drop (length old - 1) cs)
      else c # replace_all old new cs)"
  by pat_completeness auto
termination
  by (relation "measure (\<lambda>(old, new, s). length s)") auto

definition digit_char :: "nat \<Rightarrow> char" where
  "digit_char n = ''0123456789'' ! n"

fun str_nat :: "nat \<Rightarrow> string" where
  \<comment> \<open>\<^verbatim>\<open>str(n)\<close> for a non-negative integer\<close>
  "str_nat n = (if n < 10 then [digit_char n] else str_nat (n div 10) @ [digit_char (n mod 10)])"

declare str_nat.simps [simp del]

definition str_int :: "int \<Rightarrow> string" where
  "str_int i = (if i < 0 then CHR ''-'' # str_nat (nat (- i)) else str_nat (nat i))"

section \<open>The repository description\<close>

datatype file_data = RawText string | Tagged string "string option"

datatype tree = Leaf | Folder "(string \<times> tree) list"

record repo_data =
  name :: "string option"
  language :: "string option"
  description :: "string option"
  stars :: "int option"
  forks :: "int option"
  readme :: "string option"
  file_structure :: "(string \<times> tree) list"
  file_contents :: "(string \<times> file_data) list"

text \<open>
  A Python dictionary keeps its keys in insertion order, so \<open>file_structure\<close> and
  \<open>file_contents\<close> are association lists; a key that is absent from \<^verbatim>\<open>repo_data\<close> is
  \<open>None\<close>, or the empty list for the two dictionaries, which is what the source's
  \<^verbatim>\<open>.get(key, {})\<close> reads.
\<close>

section \<open>Completeness validation\<close>

definition is_node_line :: "string \<Rightarrow> bool" where
  "is_node_line line =
     (CHR ''['' \<in> set line \<and> CHR '']'' \<in> set line \<and> \<not> startswith (strip line) ''%%'')"

definition node_count :: "string \<Rightarrow> nat" where
  "node_count mermaid_code = length (filter is_node_line (split_nl mermaid_code))"

definition min_nodes_tier :: "nat \<Rightarrow> nat" where
  "min_nodes_tier file_count =
     (if file_count < 20 then 15 else if file_count < 50 then 25 else 35)"

definition has_subgraphs :: "string \<Rightarrow> bool" where
  "has_subgraphs mermaid_code = contains ''subgraph'' (lower mermaid_code)"

definition validate_diagram_completeness :: "string \<Rightarrow> repo_data \<Rightarrow> bool \<times> string list" where
  "validate_diagram_completeness mermaid_code repo =
     (let n = node_count mermaid_code;
          file_count = length (file_contents repo);
          min_nodes = min_nodes_tier file_count;
          issues = (if n < min_nodes
                    then [''Diagram too simple: only '' @ str_nat n @ '' components (need ''
                            @ str_nat min_nodes @ ''+)'']
                    else []);
          issues = (if \<not> has_subgraphs mermaid_code \<and> file_count > 10
                    then issues @ [''Missing organization: no subgraphs used'']
                    else issues)
      in (issues = [], issues))"

section \<open>Syntax validation\<close>

definition valid_types :: "string list" where
  "valid_types =
     [''sequenceDiagram'', ''graph'', ''flowchart'', ''classDiagram'',
      ''erDiagram'', ''stateDiagram'', ''journey'', ''gantt'', ''mindmap'',
      ''pie'', ''gitGraph'']"

definition line_errors :: "nat \<Rightarrow> string \<Rightarrow> string list" where
  \<comment> \<open>the body of the loop over the lines after the header, for line number \<open>i\<close>\<close>
  "line_errors i raw =
     (let line = strip raw in
      if line = [] \<or> startswith line ''%%'' then []
      else if startswith line ''subgraph'' \<or> line = ''end'' then []
      else
        (if count_list line (CHR ''['') \<noteq> count_list line (CHR '']'')
         then [''Line '' @ str_nat i @ '': Unmatched brackets''] else []) @
        (if count_list line (CHR ''('') \<noteq> count_list line (CHR '')'')
         then [''Line '' @ str_nat i @ '': Unmatched parentheses''] else []) @
        (if count_list line (CHR ''{'') \<noteq> count_list line (CHR ''}'')
         then [''Line '' @ str_nat i @ '': Unmatched braces''] else []))"

definition validate_mermaid_syntax :: "string \<Rightarrow> bool \<times> string list" where
  "validate_mermaid_syntax mermaid_code =
     (let lines = split_nl (strip mermaid_code) in
      if lines = [] then (False, [''Empty diagram code''])
      else
        (let first_line = strip (hd lines) in
         if \<not> list_ex (startswith first_line) valid_types
         then (False, [''Invalid diagram type: '' @ take 50 first_line])
         else
           (let errors = concat (map (\<lambda>(i, line). line_errors i line)
                                   (zip [1 ..< Suc (length (tl lines))] (tl lines)))
            in (errors = [], errors))))"

section \<open>Syntax repair\<close>

text \<open>
  A regular expression is modelled by what it matches at the head of the remaining
  text: \<open>Some (n, r)\<close> when the match is the first \<open>n\<close> characters and its replacement
  is \<open>r\<close>.  \<^verbatim>\<open>re.sub\<close> scans from the left, replaces a match and goes on behind it, and
  copies one character where the pattern does not match.  None of the four patterns
  matches the empty text.
\<close>

type_synonym matcher = "string \<Rightarrow> (nat \<times> string) option"

function re_sub :: "matcher \<Rightarrow> string \<Rightarrow> string" where
  "re_sub m [] = []"
| "re_sub m (c # cs) =
     (case m (c # cs) of
        None \<Rightarrow> c # re_sub m cs
      | Some (n, r) \<Rightarrow> if n = 0 then c # re_sub m cs else r @ re_sub m (drop (n - 1) cs))"
  by pat_completeness auto
termination
  by (relation "measure (\<lambda>(m, s). length s)") auto

definition run_of :: "char \<Rightarrow> string \<Rightarrow> nat" where
  \<comment> \<open>how many times \<open>ch\<close> is repeated at the head of the text\<close>
  "run_of ch s = length (takeWhile (\<lambda>c. c = ch) s)"

definition m_dashes :: matcher where
  \<comment> \<open>\<^verbatim>\<open>-{4,}>\<close>, replaced by \<^verbatim>\<open>-->\<close>\<close>
  "m_dashes s =
     (let n = run_of (CHR ''-'') s in
      if 4 \<le> n \<and> startswith (drop n s) ''>'' then Some (n + 1, ''-->'') else None)"

definition m_dots :: matcher where
  \<comment> \<open>\<^verbatim>\<open>\.{4,}>\<close>, replaced by \<^verbatim>\<open>-..->\<close>\<close>
  "m_dots s =
     (let n = run_of (CHR ''.'') s in
      if 4 \<le> n \<and> startswith (drop n s) ''>'' then Some (n + 1, ''-..->'') else None)"

definition m_words :: matcher where
  \<comment> \<open>\<^verbatim>\<open>(\w+)\s+(\w+)(?=\s*$)\<close>, replaced by \<^verbatim>\<open>\1_\2\<close>: the three runs are greedy, and as
      the two classes are disjoint a shorter run never lets the rest match\<close>
  "m_words s =
     (let w1 = takeWhile is_word s; r1 = dropWhile is_word s;
          sp = takeWhile is_space r1; r2 = dropWhile is_space r1;
          w2 = takeWhile is_word r2; r3 = dropWhile is_word r2
      in if w1 \<noteq> [] \<and> sp \<noteq> [] \<and> w2 \<noteq> [] \<and> list_all is_space r3
         then Some (length w1 + length sp + length w2, w1 @ ''_'' @ w2) else None)"

definition m_semis :: matcher where
  \<comment> \<open>\<^verbatim>\<open>;+\<close>, replaced by one semicolon\<close>
  "m_semis s =
     (let n = run_of (CHR '';'') s in if 1 \<le> n then Some (n, '';'') else None)"

definition fix_node_id :: "string \<Rightarrow> string" where
  \<comment> \<open>\<^verbatim>\<open>parts = line.split('[', 1)\<close> and the rewriting of \<^verbatim>\<open>parts[0]\<close>\<close>
  "fix_node_id line =
     (case find_index ''['' line of
        None \<Rightarrow> line
      | Some i \<Rightarrow> re_sub m_words (take i line) @ ''['' @ drop (Suc i) line)"

definition fix_line :: "string \<Rightarrow> string" where
  \<comment> \<open>the body of the loop over the lines\<close>
  "fix_line raw =
     (let line = strip raw in
      if line = [] \<or> startswith line ''%%'' then line
      else if startswith line ''subgraph'' \<or> line = ''end'' then line
      else
        (let line = re_sub m_dashes line;
             line = re_sub m_dots line;
             line = replace_all ''===>'' ''-->'' line;
             line = replace_all ''....>'' ''-..->'' line;
             line = (if CHR ''['' \<in> set line \<or> CHR ''('' \<in> set line \<or>
                        contains ''-->'' line \<or> contains ''-..->'' line
                     then fix_node_id line else line)
         in re_sub m_semis line))"

definition unfence :: "string \<Rightarrow> string" where
  \<comment> \<open>the removal of the code fences from the trimmed text\<close>
  "unfence code =
     (if startswith code ''```mermaid''
      then strip (replace_all ''```'' [] (replace_all ''```mermaid'' [] code))
      else if startswith code ''```'' then strip (replace_all ''```'' [] code)
      else code)"

definition fix_mermaid_syntax :: "string \<Rightarrow> string" where
  "fix_mermaid_syntax mermaid_code =
     (let code = unfence (strip mermaid_code);
          lines = split_nl code;
          fixed_lines = map fix_line lines
      in join [NL] fixed_lines)"

section \<open>Response parsing\<close>

definition clean_mermaid_code :: "string \<Rightarrow> string" where
  \<comment> \<open>the validation inside only prints its warnings\<close>
  "clean_mermaid_code mermaid_code = fix_mermaid_syntax mermaid_code"

definition detect_diagram_type :: "string \<Rightarrow> string" where
  "detect_diagram_type mermaid_code =
     (let code_lower = strip (lower mermaid_code) in
      if startswith code_lower ''sequencediagram'' then ''sequence''
      else if startswith code_lower ''flowchart'' \<or> startswith code_lower ''graph''
      then ''flowchart''
      else if startswith code_lower ''classdiagram'' then ''class''
      else if startswith code_lower ''erdiagram'' then ''database''
      else if startswith code_lower ''statediagram'' then ''state''
      else ''custom'')"

definition DIAGRAM_START :: string where
  "DIAGRAM_START = ''[DIAGRAM_START]''"

definition DIAGRAM_END :: string where
  "DIAGRAM_END = ''[DIAGRAM_END]''"

definition extract_diagram_from_response ::
  "string \<Rightarrow> string \<times> string option \<times> string option" where
  \<comment> \<open>returns \<open>(answer, mermaid_code, diagram_type)\<close>; the handler of the \<^verbatim>\<open>try\<close>
      block is the branch where an index is not found\<close>
  "extract_diagram_from_response response_text =
     (let answer = strip response_text in
      if contains DIAGRAM_START answer \<and> contains DIAGRAM_END answer
      then
        (case (find_index DIAGRAM_START answer, find_index DIAGRAM_END answer) of
           (Some s, Some end_idx) \<Rightarrow>
             (let start_idx = s + length DIAGRAM_START;
                  raw_code = strip (slice start_idx end_idx answer);
                  mermaid_code = clean_mermaid_code raw_code;
                  diagram_type = detect_diagram_type mermaid_code
              in (strip (take s answer), Some mermaid_code, Some diagram_type))
         | _ \<Rightarrow> (answer, None, None))
      else (answer, None, None))"

definition generate_follow_up_questions :: "string \<Rightarrow> bool \<Rightarrow> string option \<Rightarrow> string list" where
  "generate_follow_up_questions answer has_diagram diagram_type =
     (if has_diagram
      then [''Add more implementation details to the diagram'',
            ''Show error handling and edge cases'',
            ''Include deployment and infrastructure'']
      else [''Create a comprehensive architecture diagram'',
            ''Show complete data flow with all components'',
            ''Generate detailed sequence diagram''])"

section \<open>Component extraction\<close>

datatype entry = FolderAt string | FileAt string

fun traverse_structure :: "tree \<Rightarrow> string \<Rightarrow> entry list"
  and traverse_items :: "(string \<times> tree) list \<Rightarrow> string \<Rightarrow> entry list" where
  \<comment> \<open>the folders and files in the order in which the traversal appends them\<close>
  "traverse_structure Leaf path = []"
| "traverse_structure (Folder items) path = traverse_items items path"
| "traverse_items [] path = []"
| "traverse_items ((key, v) # rest) path =
     (let current_path = (if path \<noteq> [] then path @ ''/'' @ key else key) in
      (case v of
         Folder sub \<Rightarrow> FolderAt current_path # traverse_structure v current_path
       | Leaf \<Rightarrow> [FileAt current_path])
      @ traverse_items rest path)"

record components =
  frontend_files :: "string list"
  backend_files :: "string list"
  services :: "string list"
  routes :: "string list"
  models :: "string list"
  components :: "string list"
  pages :: "string list"
  utils :: "string list"
  config_files :: "string list"
  database_files :: "string list"
  api_endpoints :: "string list"
  dependencies :: "string list"
  folders :: "string list"
  all_files :: "string list"

definition has_any :: "string list \<Rightarrow> string \<Rightarrow> bool" where
  "has_any keys p = list_ex (\<lambda>k. contains k p) keys"

definition ends_with_any :: "string list \<Rightarrow> string \<Rightarrow> bool" where
  "ends_with_any exts p = list_ex (\<lambda>e. suffix e p) exts"

definition manifest_dependencies :: "(string \<times> file_data) list \<Rightarrow> string list" where
  "manifest_dependencies fc =
     concat (map (\<lambda>(filename, d).
       if has_any [''requirements.txt'', ''package.json'', ''pyproject.toml''] filename
       then (case d of
               RawText text \<Rightarrow>
                 map (\<lambda>line. strip (split_first ''>='' (split_first ''=='' line)))
                   (filter (\<lambda>line. line \<noteq> [] \<and> \<not> startswith line ''#'')
                      (map strip (take 50 (split_nl text))))
             | Tagged c p \<Rightarrow> [])
       else []) fc)"

definition extract_detailed_repo_components :: "repo_data \<Rightarrow> components" where
  "extract_detailed_repo_components repo =
     (let found = traverse_items (file_structure repo) [];
          files = concat (map (\<lambda>e. case e of FileAt p \<Rightarrow> [p] | FolderAt p \<Rightarrow> []) found);
          bucket = (\<lambda>keys. filter (\<lambda>p. has_any keys (lower p)) files)
      in \<lparr> frontend_files = bucket [''frontend'', ''client''],
           backend_files = bucket [''backend'', ''server''],
           services = bucket [''service''],
           routes = bucket [''route'', ''router''],
           models = bucket [''model'', ''schema''],
           components = bucket [''component''],
           pages = bucket [''page'', ''view''],
           utils = bucket [''util'', ''helper''],
           config_files =
             filter (ends_with_any [''.json'', ''.yaml'', ''.yml'', ''.env'', ''.toml'', ''.ini''])
               files,
           database_files =
             filter (\<lambda>p. has_any [''database'', ''/db''] (lower p) \<or> suffix ''.sql'' p) files,
           api_endpoints = [],
           dependencies = manifest_dependencies (file_contents repo),
           folders = concat (map (\<lambda>e. case e of FolderAt p \<Rightarrow> [p] | FileAt p \<Rightarrow> []) found),
           all_files = files \<rparr>)"

section \<open>Prompt budget\<close>

definition MAX_CONTEXT_CHARS :: nat where
  "MAX_CONTEXT_CHARS = 480000"

definition MAX_FILE_CONTENTS_CHARS :: nat where
  "MAX_FILE_CONTENTS_CHARS = 300000"

definition MAX_FILES_IN_PROMPT :: nat where
  "MAX_FILES_IN_PROMPT = 40"

text \<open>
  The two renderers \<^verbatim>\<open>format_file_contents\<close> and \<^verbatim>\<open>format_file_structure\<close> belong to
  the repository reader, which is not part of the service; they are parameters here.
\<close>

type_synonym contents_formatter = "(string \<times> file_data) list \<Rightarrow> nat \<Rightarrow> string"

type_synonym structure_formatter = "(string \<times> tree) list \<Rightarrow> string"

definition priority_purposes :: "string list" where
  "priority_purposes = [''api'', ''service'', ''data_model'', ''middleware'', ''configuration'']"

definition purpose_of :: "file_data \<Rightarrow> string" where
  \<comment> \<open>\<^verbatim>\<open>data.get('purpose', '') if isinstance(data, dict) else ''\<close>\<close>
  "purpose_of d = (case d of RawText text \<Rightarrow> [] | Tagged c p \<Rightarrow> (case p of None \<Rightarrow> [] | Some x \<Rightarrow> x))"

definition truncation_marker :: "nat \<Rightarrow> nat \<Rightarrow> string" where
  "truncation_marker max_files total_files =
     [NL, NL] @ ''... [TRUNCATED: showing '' @ str_nat max_files @ ''/'' @ str_nat total_files
       @ '' files to stay within token limit]''"

definition trim_files :: "(string \<times> file_data) list \<Rightarrow> nat \<Rightarrow> (string \<times> file_data) list" where
  \<comment> \<open>the priority files first, then the other files into the slots that remain\<close>
  "trim_files fc max_files =
     (let priority = filter (\<lambda>(path, d). purpose_of d \<in> set priority_purposes) fc;
          others = filter (\<lambda>(path, d). purpose_of d \<notin> set priority_purposes) fc;
          trimmed = take max_files priority;
          remaining_slots = max_files - length trimmed
      in if remaining_slots > 0 then trimmed @ take remaining_slots others else trimmed)"

definition build_trimmed_file_contents ::
  "contents_formatter \<Rightarrow> repo_data \<Rightarrow> nat \<Rightarrow> nat \<Rightarrow> string" where
  "build_trimmed_file_contents format_file_contents repo max_chars max_files =
     (let fc = file_contents repo;
          total_files = length fc
      in if total_files = 0 then ''(no files)''
         else
           (let trimmed = trim_files fc max_files;
                formatted = format_file_contents trimmed max_files
            in if length formatted > max_chars
               then take max_chars formatted @ truncation_marker max_files total_files
               else formatted))"

definition fmt_list :: "string list \<Rightarrow> string" where
  \<comment> \<open>with the default limit of 30\<close>
  "fmt_list items =
     (let shown = take 30 items;
          s = join [NL] (map (\<lambda>f. ''   - '' @ f) shown);
          s = (if length items > 30
               then s @ [NL] @ ''   ... and '' @ str_nat (length items - 30) @ '' more''
               else s)
      in if s \<noteq> [] then s else ''   (none)'')"

definition rule_line :: string where
  "rule_line = replicate 78 (CHR ''='')"

definition get_default :: "'a \<Rightarrow> 'a option \<Rightarrow> 'a" where
  \<comment> \<open>\<^verbatim>\<open>repo_data.get(key, default)\<close>\<close>
  "get_default d v = (case v of None \<Rightarrow> d | Some x \<Rightarrow> x)"

definition metadata_section :: "repo_data \<Rightarrow> nat \<Rightarrow> string" where
  "metadata_section repo file_count =
     [NL] @ rule_line @ [NL] @ ''REPOSITORY ANALYSIS'' @ [NL] @ rule_line @ [NL] @ [NL]
     @ ''Repository: '' @ get_default ''Unknown'' (name repo) @ [NL]
     @ ''Language: '' @ get_default ''Unknown'' (language repo) @ [NL]
     @ ''Total Files: '' @ str_nat file_count @ [NL]
     @ ''Stars: '' @ str_int (get_default 0 (stars repo))
     @ '' | Forks: '' @ str_int (get_default 0 (forks repo)) @ [NL]
     @ ''Description: '' @ get_default ''N/A'' (description repo) @ [NL] @ [NL]"

definition structure_section :: "structure_formatter \<Rightarrow> repo_data \<Rightarrow> string" where
  "structure_section format_file_structure repo =
     rule_line @ [NL] @ ''FILE STRUCTURE:'' @ [NL] @ rule_line @ [NL]
     @ format_file_structure (file_structure repo) @ [NL] @ [NL]"

definition bucket_line :: "string \<Rightarrow> string \<Rightarrow> string list \<Rightarrow> string" where
  "bucket_line glyph label items =
     glyph @ '' '' @ label @ '' ('' @ str_nat (length items) @ ''): '' @ fmt_list items @ [NL]"

definition components_section :: "components \<Rightarrow> string" where
  "components_section c =
     rule_line @ [NL] @ ''CATEGORIZED COMPONENTS:'' @ [NL] @ rule_line @ [NL] @ [NL]
     @ [pict] @ '' FOLDERS ('' @ str_nat (length (folders c)) @ ''):'' @ [NL]
     @ fmt_list (folders c) @ [NL] @ [NL]
     @ bucket_line [pict] ''FRONTEND'' (frontend_files c)
     @ bucket_line [pict, pict] ''BACKEND'' (backend_files c)
     @ bucket_line [pict] ''SERVICES'' (services c)
     @ bucket_line [pict, pict] ''ROUTES'' (routes c)
     @ bucket_line [pict] ''MODELS'' (models c)
     @ bucket_line [pict] ''COMPONENTS'' (components c)
     @ bucket_line [pict] ''PAGES'' (pages c)
     @ bucket_line [pict, pict] ''UTILS'' (utils c)
     @ bucket_line [pict] ''DATABASE'' (database_files c)
     @ [NL]"

definition contents_section :: "string \<Rightarrow> string" where
  "contents_section file_contents_section =
     rule_line @ [NL] @ ''FILE CONTENTS (top '' @ str_nat MAX_FILES_IN_PROMPT
     @ '' most important files):'' @ [NL] @ rule_line @ [NL]
     @ file_contents_section @ [NL] @ [NL]"

definition readme_section :: "repo_data \<Rightarrow> string" where
  "readme_section repo =
     rule_line @ [NL] @ ''README:'' @ [NL] @ rule_line @ [NL]
     @ take 5000 (get_default [] (readme repo)) @ [NL] @ [NL]"

definition requirements_section :: "nat \<Rightarrow> nat \<Rightarrow> string" where
  "requirements_section min_nodes file_count =
     rule_line @ [NL] @ ''DIAGRAM REQUIREMENTS:'' @ [NL] @ rule_line @ [NL] @ [NL]
     @ ''1. Include minimum '' @ str_nat min_nodes @ '' components (this repo has ''
     @ str_nat file_count @ '' files)'' @ [NL]
     @ ''2. Use subgraphs for each major folder'' @ [NL]
     @ ''3. Use actual filenames - NO generic names like '' @ [CHR 0x22] @ ''Service''
     @ [CHR 0x22] @ '' or '' @ [CHR 0x22] @ ''Component'' @ [CHR 0x22] @ [NL]
     @ ''4. Node IDs: ONLY letters, numbers, underscores (no spaces)'' @ [NL]
     @ ''5. Arrows: ONLY --> or -.-> or ==>'' @ [NL]
     @ ''6. Wrap diagram in [DIAGRAM_START] ... [DIAGRAM_END]'' @ [NL]
     @ ''7. NO markdown code blocks inside the diagram tags'' @ [NL]"

definition build_context ::
  "structure_formatter \<Rightarrow> repo_data \<Rightarrow> components \<Rightarrow> nat \<Rightarrow> nat \<Rightarrow> string \<Rightarrow> string" where
  \<comment> \<open>the prompt template, section by section, and the cut at \<open>MAX_CONTEXT_CHARS\<close>\<close>
  "build_context format_file_structure repo c file_count min_nodes file_contents_section =
     (let context =
            metadata_section repo file_count
            @ structure_section format_file_structure repo
            @ components_section c
            @ contents_section file_contents_section
            @ readme_section repo
            @ requirements_section min_nodes file_count
      in if length context > MAX_CONTEXT_CHARS
         then take MAX_CONTEXT_CHARS context @ [NL, NL] @ ''[CONTEXT TRUNCATED TO FIT TOKEN LIMIT]''
         else context)"

section \<open>The retry loop\<close>

datatype message = SystemMessage string | HumanMessage string | AIMessage string

record turn =
  role :: string
  content :: string

definition history_messages :: "turn list \<Rightarrow> message list" where
  \<comment> \<open>the last six turns; a turn of another role is skipped\<close>
  "history_messages chat_history =
     concat (map (\<lambda>msg.
        if role msg = ''user'' then [HumanMessage (content msg)]
        else if role msg = ''assistant'' then [AIMessage (take 2000 (content msg))]
        else [])
       (drop (length chat_history - 6) chat_history))"

text \<open>
  The model is a collaborator: the \<open>k\<close>-th invocation, on the messages it is given,
  either raises, which is \<open>Inl\<close> of the exception's text, or returns the content of its
  reply.
\<close>

type_synonym llm = "nat \<Rightarrow> message list \<Rightarrow> string + string"

record analysis_result =
  answer :: string
  mermaid_code :: "string option"
  diagram_type :: "string option"
  has_diagram :: bool
  follow_up_questions :: "string list"
  repo_name :: string

datatype exit_site = Accepted | Failed | Fallback

datatype outcome =
  Return analysis_result exit_site
  | Continue nat "message list" string

text \<open>
  \<open>Return\<close> is one of the three \<^verbatim>\<open>return\<close> statements of \<^verbatim>\<open>analyze_repo_with_chat\<close>;
  \<open>Continue\<close> is a \<^verbatim>\<open>continue\<close>, with the values of \<^verbatim>\<open>attempt\<close>, \<^verbatim>\<open>messages\<close> and
  \<^verbatim>\<open>answer\<close> that the next iteration starts from.
\<close>

definition max_retries :: nat where
  "max_retries = 3"

definition accept :: "repo_data \<Rightarrow> string \<Rightarrow> string option \<Rightarrow> string option \<Rightarrow> analysis_result" where
  "accept repo ans code dtype =
     \<lparr> answer = ans, mermaid_code = code, diagram_type = dtype,
       has_diagram = (code \<noteq> None),
       follow_up_questions = generate_follow_up_questions ans (code \<noteq> None) dtype,
       repo_name = get_default ''Unknown'' (name repo) \<rparr>"

definition syntax_feedback :: "string list \<Rightarrow> string" where
  "syntax_feedback syntax_errors =
     ''SYNTAX ERRORS: '' @ join '', '' (take 3 syntax_errors)
     @ ''. Fix node IDs (no spaces, use underscores) and bracket matching. Regenerate.''"

definition completeness_feedback :: "string list \<Rightarrow> nat \<Rightarrow> string" where
  "completeness_feedback completeness_issues min_nodes =
     ''DIAGRAM TOO SIMPLE: '' @ join '', '' completeness_issues
     @ ''. Include at least '' @ str_nat min_nodes
     @ '' components with subgraphs. Use real filenames. Regenerate.''"

definition try_body ::
  "repo_data \<Rightarrow> nat \<Rightarrow> nat \<Rightarrow> message list \<Rightarrow> string \<Rightarrow> outcome" where
  \<comment> \<open>the \<^verbatim>\<open>try\<close> block after the invocation has returned \<open>answer_text\<close>\<close>
  "try_body repo min_nodes attempt messages answer_text =
     (case extract_diagram_from_response answer_text of
        (ans, code, dtype) \<Rightarrow>
          (if code \<noteq> None \<and> code \<noteq> Some []
           then
             (let fixed = fix_mermaid_syntax (the code);
                  syn = validate_mermaid_syntax fixed;
                  com = validate_diagram_completeness fixed repo
              in if \<not> fst syn \<and> attempt < max_retries - 1
                 then Continue (attempt + 1)
                        (messages @ [AIMessage (take 1000 answer_text),
                                     HumanMessage (syntax_feedback (snd syn))])
                        ans
                 else if \<not> fst com \<and> attempt < max_retries - 1
                 then Continue (attempt + 1)
                        (messages @ [AIMessage (take 1000 answer_text),
                                     HumanMessage (completeness_feedback (snd com) min_nodes)])
                        ans
                 else Return (accept repo ans (Some fixed) dtype) Accepted)
           else Return (accept repo ans code dtype) Accepted))"

definition is_context_overflow :: "string \<Rightarrow> bool" where
  "is_context_overflow err =
     (contains ''context_length_exceeded'' err \<or> contains ''maximum context length'' err)"

definition reduced_context :: "contents_formatter \<Rightarrow> repo_data \<Rightarrow> string \<Rightarrow> string" where
  \<comment> \<open>the system prompt rebuilt after an overflow\<close>
  "reduced_context format_file_contents repo context =
     (let reduced_contents = build_trimmed_file_contents format_file_contents repo 80000 15;
          trimmed_context = split_first ''FILE CONTENTS'' context
      in trimmed_context @ ''FILE CONTENTS (reduced due to token limit):'' @ [NL]
         @ rule_line @ [NL] @ reduced_contents)"

definition error_result :: "repo_data \<Rightarrow> string \<Rightarrow> analysis_result" where
  "error_result repo err =
     \<lparr> answer = ''Error generating response: '' @ err, mermaid_code = None,
       diagram_type = None, has_diagram = False, follow_up_questions = [],
       repo_name = get_default ''Unknown'' (name repo) \<rparr>"

definition except_body ::
  "contents_formatter \<Rightarrow> repo_data \<Rightarrow> string \<Rightarrow> nat \<Rightarrow> message list \<Rightarrow> string \<Rightarrow> string
     \<Rightarrow> outcome" where
  \<comment> \<open>the handler, for the exception text \<open>err\<close>; \<open>ans\<close> is \<^verbatim>\<open>answer\<close> as the last
      completed parse left it\<close>
  "except_body format_file_contents repo context attempt messages ans err =
     (if is_context_overflow err \<and> attempt < max_retries - 1
      then Continue (attempt + 1)
             (messages[0 := SystemMessage (reduced_context format_file_contents repo context)])
             ans
      else if attempt < max_retries - 1 then Continue (attempt + 1) messages ans
      else Return (error_result repo err) Failed)"

definition attempt_body ::
  "contents_formatter \<Rightarrow> repo_data \<Rightarrow> string \<Rightarrow> nat \<Rightarrow> nat \<Rightarrow> message list \<Rightarrow> string
     \<Rightarrow> string + string \<Rightarrow> outcome" where
  "attempt_body format_file_contents repo context min_nodes attempt messages ans reply =
     (case reply of
        Inr answer_text \<Rightarrow> try_body repo min_nodes attempt messages answer_text
      | Inl err \<Rightarrow> except_body format_file_contents repo context attempt messages ans err)"

definition fallback_result :: "repo_data \<Rightarrow> string \<Rightarrow> analysis_result" where
  "fallback_result repo ans =
     \<lparr> answer = (if ans \<noteq> [] then ans else ''Unable to generate response''),
       mermaid_code = None, diagram_type = None, has_diagram = False,
       follow_up_questions = [], repo_name = get_default ''Unknown'' (name repo) \<rparr>"

record run =
  result :: analysis_result
  exit_site :: exit_site
  invocations :: "message list list"
  attempts :: nat

text \<open>
  A \<open>run\<close> is what a call returns together with what it did: the return statement it
  left by, the message sequence of each model invocation in order, and the final value
  of the attempt counter.
\<close>

function retry_loop ::
  "llm \<Rightarrow> contents_formatter \<Rightarrow> repo_data \<Rightarrow> string \<Rightarrow> nat \<Rightarrow> nat \<Rightarrow> message list \<Rightarrow> string
     \<Rightarrow> message list list \<Rightarrow> run" where
  "retry_loop model format_file_contents repo context min_nodes attempt messages ans calls =
     (if attempt < max_retries
      then
        (case attempt_body format_file_contents repo context min_nodes attempt messages ans
                (model (length calls) messages) of
           Return r site \<Rightarrow>
             \<lparr> result = r, exit_site = site, invocations = calls @ [messages],
               attempts = attempt \<rparr>
         | Continue attempt' messages' ans' \<Rightarrow>
             retry_loop model format_file_contents repo context min_nodes attempt' messages' ans'
               (calls @ [messages]))
      else \<lparr> result = fallback_result repo ans, exit_site = Fallback, invocations = calls,
             attempts = attempt \<rparr>)"
  by pat_completeness auto
termination
proof (relation "measure (\<lambda>(model, fmt, repo, context, min_nodes, attempt, rest).
                   max_retries - attempt)")
  show "wf (measure (\<lambda>(model, fmt, repo, context, min_nodes, attempt, rest).
              max_retries - attempt))"
    by simp
next
  fix model :: llm and fmt :: contents_formatter and repo :: repo_data and ctx :: string
    and min_nodes attempt :: nat and messages :: "message list" and ans :: string
    and calls :: "message list list" and attempt' :: nat and messages' :: "message list"
    and ans' :: string
  assume lt: "attempt < max_retries"
    and step: "attempt_body fmt repo ctx min_nodes attempt messages ans
                 (model (length calls) messages) = Continue attempt' messages' ans'"
  from step have "attempt' = attempt + 1"
    by (auto simp: attempt_body_def try_body_def except_body_def Let_def
             split: sum.splits prod.splits if_splits)
  with lt show "((model, fmt, repo, ctx, min_nodes, attempt', messages', ans',
                  calls @ [messages]),
                 (model, fmt, repo, ctx, min_nodes, attempt, messages, ans, calls))
                \<in> measure (\<lambda>(model, fmt, repo, context, min_nodes, attempt, rest).
                     max_retries - attempt)"
    by simp
qed

definition analyze_repo_with_chat ::
  "llm \<Rightarrow> structure_formatter \<Rightarrow> contents_formatter \<Rightarrow> repo_data \<Rightarrow> string \<Rightarrow> turn list \<Rightarrow> run" where
  "analyze_repo_with_chat model format_file_structure format_file_contents repo question
       chat_history =
     (let c = extract_detailed_repo_components repo;
          file_count = length (all_files c);
          min_nodes = max 15 (file_count div 2);
          file_contents_section =
            build_trimmed_file_contents format_file_contents repo
              MAX_FILE_CONTENTS_CHARS MAX_FILES_IN_PROMPT;
          context = build_context format_file_structure repo c file_count min_nodes
                      file_contents_section;
          messages = [SystemMessage context] @ history_messages chat_history
                     @ [HumanMessage question]
      in retry_loop model format_file_contents repo context min_nodes 0 messages [] [])"

section \<open>Example inputs\<close>





section \<open>Properties of the completeness validator\<close>



section \<open>Properties of the retry loop\<close>

declare retry_loop.simps [simp del]

lemma attempt_body_Continue:
  assumes "attempt_body fmt repo ctx mn attempt messages ans reply = Continue a' m' ans'"
  shows "a' = attempt + 1 \<and> attempt + 1 < max_retries"
  using assms
  by (auto simp: attempt_body_def try_body_def except_body_def Let_def
           split: sum.splits prod.splits if_splits)

lemma attempt_body_Return:
  assumes "attempt_body fmt repo ctx mn attempt messages ans reply = Return r site"
  shows "site \<noteq> Fallback"
  using assms
  by (auto simp: attempt_body_def try_body_def except_body_def Let_def
           split: sum.splits prod.splits if_splits)

text \<open>
  Every iteration that starts makes one invocation; it then either returns, or has
  raised the counter by one with a further attempt left.  So the loop is left by one of
  its own return statements, and the invocations number one more than the increments.
\<close>

lemma retry_loop_counts:
  "attempt < max_retries \<Longrightarrow>
   exit_site (retry_loop model fmt repo ctx mn attempt messages ans calls) \<noteq> Fallback
   \<and> attempts (retry_loop model fmt repo ctx mn attempt messages ans calls) < max_retries
   \<and> length (invocations (retry_loop model fmt repo ctx mn attempt messages ans calls))
       + attempt
     = length calls + attempts (retry_loop model fmt repo ctx mn attempt messages ans calls) + 1"
proof (induction model fmt repo ctx mn attempt messages ans calls rule: retry_loop.induct)
  case (1 model fmt repo ctx mn attempt messages ans calls)
  show ?case
  proof (cases "attempt_body fmt repo ctx mn attempt messages ans (model (length calls) messages)")
    case (Return r site)
    then have "site \<noteq> Fallback"
      by (rule attempt_body_Return)
    have eq: "retry_loop model fmt repo ctx mn attempt messages ans calls
              = \<lparr> result = r, exit_site = site, invocations = calls @ [messages],
                  attempts = attempt \<rparr>"
      using Return "1.prems" by (subst retry_loop.simps) simp
    from \<open>site \<noteq> Fallback\<close> "1.prems" show ?thesis
      unfolding eq by simp
  next
    case (Continue a' m' ans')
    then have a': "a' = attempt + 1" "attempt + 1 < max_retries"
      using attempt_body_Continue by blast+
    have eq: "retry_loop model fmt repo ctx mn attempt messages ans calls
              = retry_loop model fmt repo ctx mn a' m' ans' (calls @ [messages])"
      using Continue "1.prems" by (subst retry_loop.simps) simp
    from "1.IH" [OF "1.prems" Continue] a'
    show ?thesis unfolding eq by simp
  qed
qed

lemma analyze_is_loop:
  "\<exists>ctx mn msgs. analyze_repo_with_chat model ffs ffc repo question history
     = retry_loop model ffc repo ctx mn 0 msgs [] []"
  unfolding analyze_repo_with_chat_def Let_def by blast

text \<open>
  Claim C7.  A call of \<open>analyze_repo_with_chat\<close> terminates (the loop is a total
  function, by the termination proof of \<open>retry_loop\<close>), it invokes the model at most
  three times, and the invocations are exactly one more than the increments of the
  attempt counter: every counted retry is one model call.
\<close>

theorem analyze_bounded:
  "length (invocations (analyze_repo_with_chat model ffs ffc repo question history))
     = attempts (analyze_repo_with_chat model ffs ffc repo question history) + 1
   \<and> length (invocations (analyze_repo_with_chat model ffs ffc repo question history))
     \<le> max_retries"
proof -
  obtain ctx mn msgs where eq: "analyze_repo_with_chat model ffs ffc repo question history
     = retry_loop model ffc repo ctx mn 0 msgs [] []"
    using analyze_is_loop by blast
  have "0 < max_retries" by (simp add: max_retries_def)
  from retry_loop_counts [OF this, where model = model and fmt = ffc and repo = repo
      and ctx = ctx and mn = mn and messages = msgs and ans = "[]" and calls = "[]"]
  show ?thesis unfolding eq by simp
qed

text \<open>
  Claim C10.  The final return statement, with the answer "Unable to generate
  response", is never reached: every call leaves by a return statement inside the loop,
  after at most three iterations.
\<close>

theorem fallback_unreachable:
  "exit_site (analyze_repo_with_chat model ffs ffc repo question history) \<noteq> Fallback
   \<and> attempts (analyze_repo_with_chat model ffs ffc repo question history) < max_retries"
proof -
  obtain ctx mn msgs where eq: "analyze_repo_with_chat model ffs ffc repo question history
     = retry_loop model ffc repo ctx mn 0 msgs [] []"
    using analyze_is_loop by blast
  have "0 < max_retries" by (simp add: max_retries_def)
  from retry_loop_counts [OF this, where model = model and fmt = ffc and repo = repo
      and ctx = ctx and mn = mn and messages = msgs and ans = "[]" and calls = "[]"]
  show ?thesis unfolding eq by simp
qed

end
